theory Spec2Isabelle
  imports Main "HOL-Library.Char_ord" "HOL-Library.List_Lexorder"
begin

section \<open>The policy document\<close>

text \<open>
  The script keeps its whole state in \<open>self.data\<close>, the parsed JSON document: a list
  \<open>active\<close> of group names and a dictionary \<open>groups\<close> from a group name to a
  dictionary with the three lists \<open>hours\<close>, \<open>domains\<close> and \<open>days\<close>. A group
  dictionary is modelled as a record with the three lists present (the shape
  \<open>_load_json\<close> and \<open>add\<close> create), so that a stored group is never the empty
  dictionary and \<open>groups.get(name)\<close> is true exactly when the key is there.
\<close>

record group_rec =
  hours :: "string list"
  domains :: "string list"
  days :: "string list"

record data =
  active :: "string list"
  groups :: "string \<rightharpoonup> group_rec"

text \<open>The exceptions and the early error returns of the methods modelled below.\<close>

datatype error =
    ValueError
  | AttributeError
  | NoGroupSpecified
  | GroupNotFound

text \<open>The skeleton that \<open>_load_json\<close> writes when there is no JSON file yet.\<close>

definition default_group :: group_rec where
  "default_group = \<lparr>hours = [''*''], domains = [], days = [''*'']\<rparr>"

definition skeleton :: data where
  "skeleton = \<lparr>active = [''default''], groups = [''default'' \<mapsto> default_group]\<rparr>"

section \<open>Python values and string operations\<close>

text \<open>
  \<open>_is_live\<close> compares the integer \<open>now.hour\<close> with an entry of the hours list, which
  is a string. Python's \<open>==\<close> between values of different types is false, so the two
  kinds of value are kept apart.
\<close>

datatype pyval = PyInt int | PyStr string

fun py_eq :: "pyval \<Rightarrow> pyval \<Rightarrow> bool" where
  "py_eq (PyInt i) (PyInt j) = (i = j)"
| "py_eq (PyStr s) (PyStr t) = (s = t)"
| "py_eq _ _ = False"

text \<open>\<open>re.search('\-', s)\<close>: the string has a dash somewhere.\<close>

definition has_dash :: "string \<Rightarrow> bool" where
  "has_dash s = (CHR ''-'' \<in> set s)"

text \<open>\<open>s.partition('-')\<close>: the parts before and after the first dash.\<close>

definition partition_dash :: "string \<Rightarrow> string \<times> string" where
  "partition_dash s =
     (takeWhile (\<lambda>c. c \<noteq> CHR ''-'') s, drop 1 (dropWhile (\<lambda>c. c \<noteq> CHR ''-'') s))"

definition is_digit :: "char \<Rightarrow> bool" where
  "is_digit c = (c \<in> set ''0123456789'')"

definition is_space :: "char \<Rightarrow> bool" where
  "is_space c = (c \<in> set [CHR '' '', CHR 0x09, CHR 0x0A, CHR 0x0B, CHR 0x0C, CHR 0x0D])"

definition digit_val :: "char \<Rightarrow> int" where
  "digit_val c = int (of_char c) - 48"

fun digits_val :: "int \<Rightarrow> string \<Rightarrow> int" where
  "digits_val acc [] = acc"
| "digits_val acc (c # cs) = digits_val (10 * acc + digit_val c) cs"

definition strip :: "string \<Rightarrow> string" where
  "strip s = rev (dropWhile is_space (rev (dropWhile is_space s)))"

text \<open>
  \<open>int(s)\<close> on a string, base ten, as Python 2 reads it (the script is Python 2):
  white space around the literal is dropped, one sign is allowed, white space may follow the
  sign, and what is left must be a non-empty run of decimal digits; anything else raises
  \<open>ValueError\<close>. (Python 2 also takes a trailing \<open>L\<close> after a literal too long for a
  machine integer; that form is read as an error here.)
\<close>

definition unsigned_int :: "string \<Rightarrow> error + int" where
  "unsigned_int s =
     (if s \<noteq> [] \<and> list_all is_digit s then Inr (digits_val 0 s) else Inl ValueError)"

definition py_int :: "string \<Rightarrow> error + int" where
  "py_int s =
     (case strip s of
        [] \<Rightarrow> Inl ValueError
      | c # cs \<Rightarrow>
          if c = CHR ''-'' then
            (case unsigned_int (dropWhile is_space cs) of Inl e \<Rightarrow> Inl e | Inr n \<Rightarrow> Inr (- n))
          else if c = CHR ''+'' then unsigned_int (dropWhile is_space cs)
          else unsigned_int (c # cs))"

section \<open>\<open>_is_live\<close>\<close>

text \<open>
  The instant \<open>datetime.now()\<close> enters as a parameter: its \<open>hour\<close> (0 to 23) and its
  \<open>weekday()\<close> (0 for Monday to 6 for Sunday).
\<close>

record instant =
  hour :: int
  weekday :: int

definition day_name :: "int \<Rightarrow> string" where
  "day_name w =
     (if w = 0 then ''Monday'' else if w = 1 then ''Tuesday''
      else if w = 2 then ''Wednesday'' else if w = 3 then ''Thursday''
      else if w = 4 then ''Friday'' else if w = 5 then ''Saturday''
      else if w = 6 then ''Sunday'' else ''*'')"

text \<open>
  The loop over the hours list, with the flag \<open>in_hours\<close> as accumulator. In
  \<open>hour >= int(hour_start) and hour < int(hour_end)\<close> the second \<open>int\<close> is only
  evaluated when the first comparison holds.
\<close>

fun hours_loop :: "int \<Rightarrow> string list \<Rightarrow> bool \<Rightarrow> error + bool" where
  "hours_loop h [] in_hours = Inr in_hours"
| "hours_loop h (s # ss) in_hours =
     (if has_dash s then
        (case partition_dash s of (hour_start, hour_end) \<Rightarrow>
           (case py_int hour_start of
              Inl e \<Rightarrow> Inl e
            | Inr a \<Rightarrow>
                if h \<ge> a then
                  (case py_int hour_end of
                     Inl e \<Rightarrow> Inl e
                   | Inr b \<Rightarrow> hours_loop h ss (if h < b then True else in_hours))
                else hours_loop h ss in_hours))
      else hours_loop h ss (if py_eq (PyInt h) (PyStr s) then True else in_hours))"

text \<open>The hour check: the value of \<open>in_hours\<close> when \<open>_is_live\<close> returns.\<close>

definition in_hours :: "string list \<Rightarrow> int \<Rightarrow> error + bool" where
  "in_hours hs h = (if ''*'' \<in> set hs then Inr True else hours_loop h hs False)"

text \<open>
  The two endpoints the loop reads from an entry with a dash: \<open>int\<close> of the parts
  before and after the first dash.
\<close>

definition range_bounds :: "string \<Rightarrow> (error + int) \<times> (error + int)" where
  "range_bounds s =
     (case partition_dash s of (hour_start, hour_end) \<Rightarrow> (py_int hour_start, py_int hour_end))"

text \<open>The day check: the value of \<open>in_day\<close>.\<close>

definition in_day :: "string list \<Rightarrow> int \<Rightarrow> bool" where
  "in_day ds w = (if ''*'' \<in> set ds then True else if day_name w \<in> set ds then True else False)"

definition is_live :: "data \<Rightarrow> string \<Rightarrow> instant \<Rightarrow> error + bool" where
  "is_live d groupname now =
     (case groups d groupname of
        None \<Rightarrow> Inr False
      | Some g \<Rightarrow>
          (case in_hours (hours g) (hour now) of
             Inl e \<Rightarrow> Inl e
           | Inr ih \<Rightarrow> Inr (ih \<and> in_day (days g) (weekday now))))"

section \<open>Command-line options\<close>

text \<open>
  The parsed arguments: \<open>--group\<close>, \<open>--hour\<close>, \<open>--day\<close>, \<open>--domain\<close> (each
  \<open>None\<close> when not given) and the field named by \<open>--empty\<close>. A test such as
  \<open>if self.options.hour\<close> holds when the option is given and is not the empty string.
\<close>

record options =
  opt_group :: "string option"
  opt_hour :: "string option"
  opt_day :: "string option"
  opt_domain :: "string option"
  opt_empty :: "string option"

definition truthy :: "string option \<Rightarrow> bool" where
  "truthy v = (case v of None \<Rightarrow> False | Some s \<Rightarrow> s \<noteq> [])"

text \<open>\<open>str.lower()\<close>: the upper-case ASCII letters are replaced.\<close>

definition lower_char :: "char \<Rightarrow> char" where
  "lower_char c =
     (case map_of (zip ''ABCDEFGHIJKLMNOPQRSTUVWXYZ'' ''abcdefghijklmnopqrstuvwxyz'') c of
        None \<Rightarrow> c
      | Some l \<Rightarrow> l)"

definition lower :: "string \<Rightarrow> string" where
  "lower s = map lower_char s"

section \<open>\<open>add\<close>\<close>

text \<open>
  The group the mutation works on. Without \<open>--group\<close> it is \<open>default\<close>, and nothing is
  created; with \<open>--group\<close> the lower-cased name is used and the group is created with
  wildcard hours and days when it is not there.
\<close>

definition add_groupname :: "options \<Rightarrow> string" where
  "add_groupname opts =
     (case opt_group opts of
        None \<Rightarrow> ''default''
      | Some g \<Rightarrow> if g = [] then ''default'' else lower g)"

definition add_create :: "options \<Rightarrow> data \<Rightarrow> data" where
  "add_create opts d =
     (if \<not> truthy (opt_group opts) then d
      else if groups d (add_groupname opts) = None
        then d\<lparr>groups := (groups d)(add_groupname opts \<mapsto> default_group)\<rparr>
        else d)"

text \<open>\<open>re.search('[0-9-\*]', s)\<close>: some character is a digit, a dash or a star.\<close>

definition re_search_hour :: "string \<Rightarrow> bool" where
  "re_search_hour s = list_ex (\<lambda>c. is_digit c \<or> c = CHR ''-'' \<or> c = CHR ''*'') s"

definition days_map :: "string list" where
  "days_map = [''Monday'', ''Tuesday'', ''Wednesday'', ''Thursday'', ''Friday'',
               ''Saturday'', ''Sunday'', ''*'']"

text \<open>
  How a value joins a list of hours or days: the wildcard replaces the list, a value added
  to a list with the wildcard replaces it, anything else is appended.
  \<open>list(set(xs))\<close> followed by \<open>sort()\<close> is the sorted list without duplicates.
\<close>

definition add_spec :: "string \<Rightarrow> string list \<Rightarrow> string list" where
  "add_spec v xs =
     sort (remdups (if v = ''*'' then [''*'']
                    else if ''*'' \<in> set xs then [v]
                    else xs @ [v]))"

text \<open>
  Each of the three sections reads \<open>self.data.get('groups').get(groupname)\<close> and calls a
  method on it: when the group is not there (only possible for \<open>default\<close>, which is never
  created here) that is an \<open>AttributeError\<close> on \<open>None\<close>.
\<close>

definition add_hours :: "options \<Rightarrow> string \<Rightarrow> data \<Rightarrow> error + data" where
  "add_hours opts groupname d =
     (case opt_hour opts of
        None \<Rightarrow> Inr d
      | Some h \<Rightarrow>
          if h \<noteq> [] \<and> re_search_hour h then
            (case groups d groupname of
               None \<Rightarrow> Inl AttributeError
             | Some g \<Rightarrow>
                 Inr (d\<lparr>groups := (groups d)(groupname \<mapsto> g\<lparr>hours := add_spec h (hours g)\<rparr>)\<rparr>))
          else Inr d)"

definition add_days :: "options \<Rightarrow> string \<Rightarrow> data \<Rightarrow> error + data" where
  "add_days opts groupname d =
     (case opt_day opts of
        None \<Rightarrow> Inr d
      | Some y \<Rightarrow>
          if y \<noteq> [] \<and> y \<in> set days_map then
            (case groups d groupname of
               None \<Rightarrow> Inl AttributeError
             | Some g \<Rightarrow>
                 Inr (d\<lparr>groups := (groups d)(groupname \<mapsto> g\<lparr>days := add_spec y (days g)\<rparr>)\<rparr>))
          else Inr d)"

text \<open>\<open>re.match('http://', domain)\<close> and the slice that drops the prefix.\<close>

definition normalize_domain :: "string \<Rightarrow> string" where
  "normalize_domain v =
     (let domain = lower v
      in if take 7 domain = ''http://'' then drop 7 domain else domain)"

definition add_domains :: "options \<Rightarrow> string \<Rightarrow> data \<Rightarrow> error + data" where
  "add_domains opts groupname d =
     (case opt_domain opts of
        None \<Rightarrow> Inr d
      | Some v \<Rightarrow>
          if v \<noteq> [] then
            (case groups d groupname of
               None \<Rightarrow> Inl AttributeError
             | Some g \<Rightarrow>
                 Inr (d\<lparr>groups :=
                   (groups d)(groupname \<mapsto> g\<lparr>domains := domains g @ [normalize_domain v]\<rparr>)\<rparr>))
          else Inr d)"

text \<open>The whole method; its last statement appends the group name to \<open>active\<close>.\<close>

definition add :: "options \<Rightarrow> data \<Rightarrow> error + data" where
  "add opts d =
     (let groupname = add_groupname opts
      in case add_hours opts groupname (add_create opts d) of
           Inl e \<Rightarrow> Inl e
         | Inr d1 \<Rightarrow>
             (case add_days opts groupname d1 of
                Inl e \<Rightarrow> Inl e
              | Inr d2 \<Rightarrow>
                  (case add_domains opts groupname d2 of
                     Inl e \<Rightarrow> Inl e
                   | Inr d3 \<Rightarrow> Inr (d3\<lparr>active := active d3 @ [groupname]\<rparr>))))"

text \<open>One run of the script after the other, each with \<open>--add\<close>.\<close>

fun adds :: "options list \<Rightarrow> data \<Rightarrow> error + data" where
  "adds [] d = Inr d"
| "adds (opts # rest) d = (case add opts d of Inl e \<Rightarrow> Inl e | Inr d' \<Rightarrow> adds rest d')"

text \<open>
  The invariant of the hours and days lists: a list that holds the wildcard holds nothing
  else. \<open>never_mixed\<close> says so for both lists of every group of the document.
\<close>

definition wildcard_ok :: "string list \<Rightarrow> bool" where
  "wildcard_ok xs = (if ''*'' \<in> set xs then xs = [''*''] else True)"

definition never_mixed :: "data \<Rightarrow> bool" where
  "never_mixed d = (\<forall>g \<in> ran (groups d). wildcard_ok (hours g) \<and> wildcard_ok (days g))"

section \<open>\<open>empty\<close>, \<open>activate\<close>, \<open>deactivate\<close>\<close>

text \<open>
  \<open>empty\<close> prints a message and returns early when no group is named or the group does
  not exist; the two early returns are the errors \<open>NoGroupSpecified\<close> and
  \<open>GroupNotFound\<close>.
\<close>

definition empty_field :: "options \<Rightarrow> data \<Rightarrow> error + data" where
  "empty_field opts d =
     (case opt_group opts of
        None \<Rightarrow> Inl NoGroupSpecified
      | Some n \<Rightarrow>
          if n = [] then Inl NoGroupSpecified
          else
            (case groups d (lower n) of
               None \<Rightarrow> Inl GroupNotFound
             | Some g \<Rightarrow>
                 Inr (d\<lparr>groups := (groups d)(lower n \<mapsto>
                   (if opt_empty opts = Some ''days'' then g\<lparr>days := []\<rparr>
                    else if opt_empty opts = Some ''domains'' then g\<lparr>domains := []\<rparr>
                    else if opt_empty opts = Some ''hours'' then g\<lparr>hours := []\<rparr>
                    else g))\<rparr>)))"

definition activate :: "options \<Rightarrow> data \<Rightarrow> data" where
  "activate opts d =
     (case opt_group opts of
        None \<Rightarrow> d
      | Some n \<Rightarrow>
          if n \<notin> set (active d) \<and> groups d n \<noteq> None
          then d\<lparr>active := active d @ [n]\<rparr> else d)"

text \<open>\<open>list.remove(x)\<close> removes the first occurrence of \<open>x\<close>.\<close>

definition deactivate :: "options \<Rightarrow> data \<Rightarrow> data" where
  "deactivate opts d =
     (case opt_group opts of
        None \<Rightarrow> d
      | Some n \<Rightarrow>
          if n \<in> set (active d) \<and> groups d n \<noteq> None
          then d\<lparr>active := remove1 n (active d)\<rparr> else d)"

section \<open>\<open>update_hosts\<close>\<close>

text \<open>
  The Python set \<open>domains\<close> is a list without duplicates; \<open>domains.add\<close> is
  \<open>List.insert\<close>. The order of that list does not matter, since the set is sorted before
  it is used. The loop over \<open>active\<close> skips a name with no group and asks \<open>_is_live\<close>
  for the others.
\<close>

fun collect_domains :: "data \<Rightarrow> instant \<Rightarrow> string list \<Rightarrow> string list \<Rightarrow> error + string list" where
  "collect_domains d now [] doms = Inr doms"
| "collect_domains d now (name # names) doms =
     (case groups d name of
        None \<Rightarrow> collect_domains d now names doms
      | Some g \<Rightarrow>
          (case is_live d name now of
             Inl e \<Rightarrow> Inl e
           | Inr live \<Rightarrow>
               collect_domains d now names
                 (if live then fold List.insert (domains g) doms else doms)))"

text \<open>The value of \<open>domains\<close> after the lines that sort it: the list of blocked domains.\<close>

definition blocked_domains :: "data \<Rightarrow> instant \<Rightarrow> error + string list" where
  "blocked_domains d now =
     (case collect_domains d now (active d) [] of
        Inl e \<Rightarrow> Inl e
      | Inr doms \<Rightarrow> Inr (if length doms > 0 then sort doms else doms))"

text \<open>\<open>sep.join(xs)\<close>.\<close>

fun join :: "string \<Rightarrow> string list \<Rightarrow> string" where
  "join sep [] = []"
| "join sep [x] = x"
| "join sep (x # y # ys) = x @ sep @ join sep (y # ys)"

definition hosts_file_blackhole :: string where
  "hosts_file_blackhole = ''127.0.0.250''"

text \<open>The text \<open>body\<close> built from the set of domains, for a blackhole address.\<close>

definition render_body :: "string \<Rightarrow> string list \<Rightarrow> string" where
  "render_body blackhole doms =
     (if length doms > 0 then
        (let sep = [CHR 0x0A] @ blackhole @ [CHR 0x09]
         in sep @ join sep (sort doms))
      else [])"

definition update_hosts_body :: "data \<Rightarrow> instant \<Rightarrow> error + string" where
  "update_hosts_body d now =
     (case collect_domains d now (active d) [] of
        Inl e \<Rightarrow> Inl e
      | Inr doms \<Rightarrow> Inr (render_body hosts_file_blackhole doms))"

text \<open>
  The body as the specification words it, written without \<open>join\<close>: nothing for no
  domains; otherwise one line \<open>address TAB domain\<close> for each domain, in order, each
  with one newline in front of it. The newline in front of the first line is the leading
  one that leaves a blank line before the first entry; the newline in front of each later
  line is the single newline that joins it to the line before.
\<close>

definition spec_line :: "string \<Rightarrow> string \<Rightarrow> string" where
  "spec_line blackhole domain = blackhole @ [CHR 0x09] @ domain"

definition spec_body :: "string \<Rightarrow> string list \<Rightarrow> string" where
  "spec_body blackhole ds =
     (if ds = [] then []
      else concat (map (\<lambda>domain. [CHR 0x0A] @ spec_line blackhole domain) ds))"

section \<open>Evaluation\<close>

lemmas string_defs = has_dash_def partition_dash_def py_int_def strip_def is_space_def
  unsigned_int_def is_digit_def digit_val_def

lemmas add_defs = add_def add_groupname_def add_create_def add_hours_def add_days_def
  add_domains_def add_spec_def re_search_hour_def days_map_def normalize_domain_def
  truthy_def lower_def lower_char_def is_digit_def default_group_def skeleton_def Let_def

lemmas live_defs = blocked_domains_def update_hosts_body_def render_body_def is_live_def
  in_hours_def in_day_def day_name_def hosts_file_blackhole_def

section \<open>Single hours\<close>

lemma hours_loop_no_dash:
  "\<forall>s \<in> set ss. \<not> has_dash s \<Longrightarrow> hours_loop h ss acc = Inr acc"
  by (induction ss arbitrary: acc) auto

text \<open>
  C1. The documentation gives \<open>--hour 8\<close> as a way to block during hour 8, and the claim
  says that a single-hour entry matches the instant whose hour it names. The code compares
  the integer hour with the string entry, which is never equal: a group whose hours are
  \<open>["8"]\<close> and whose days are the wildcard is not live at hour 8 on a Monday, and its hour
  check is false there.
\<close>

theorem single_hour_never_matches:
  "in_hours [''8''] 8 = Inr False \<and>
   is_live \<lparr>active = [''work''],
            groups = [''work'' \<mapsto> \<lparr>hours = [''8''], domains = [''example.com''], days = [''*'']\<rparr>]\<rparr>
     ''work'' \<lparr>hour = 8, weekday = 0\<rparr> = Inr False"
  by (simp add: is_live_def in_hours_def has_dash_def in_day_def)

section \<open>Hour ranges\<close>

lemma hours_loop_ranges:
  assumes "\<forall>s\<in>set hs. has_dash s \<and> (\<exists>a b. range_bounds s = (Inr a, Inr b))"
  shows "hours_loop h hs acc =
     Inr (acc \<or> (\<exists>s\<in>set hs. \<exists>a b. range_bounds s = (Inr a, Inr b) \<and> a \<le> h \<and> h < b))"
  using assms
proof (induction hs arbitrary: acc)
  case Nil
  then show ?case by simp
next
  case (Cons s ss)
  from Cons.prems have dash: "has_dash s" by simp
  from Cons.prems obtain a b where ab: "range_bounds s = (Inr a, Inr b)" by auto
  then have p: "py_int (fst (partition_dash s)) = Inr a" "py_int (snd (partition_dash s)) = Inr b"
    by (auto simp: range_bounds_def split: prod.splits)
  from Cons.prems
  have rest: "\<forall>s\<in>set ss. has_dash s \<and> (\<exists>a b. range_bounds s = (Inr a, Inr b))"
    by simp
  show ?case
    using dash ab p Cons.IH[OF rest] by (auto split: prod.splits)
qed

text \<open>
  C2, as the code has it. The hour check runs over every entry of the hours list and is true
  as soon as one of them matches, so an entry \<open>start-end\<close> decides the check alone only
  when no other entry matches. For a list of range specs (every entry has a dash and two
  integer endpoints, so the list holds neither the wildcard nor a single hour), the check is
  true exactly when some range of the list has \<open>start \<le> h < end\<close>, the upper bound
  excluded; for the list \<open>["9-17"]\<close> that is \<open>9 \<le> h < 17\<close>: true from 9 to 16, false
  at 8 and at 17.
\<close>

theorem range_hours_half_open:
  "((\<forall>s\<in>set hs. has_dash s \<and> (\<exists>a b. range_bounds s = (Inr a, Inr b))) \<longrightarrow>
      in_hours hs h =
        Inr (\<exists>s\<in>set hs. \<exists>a b. range_bounds s = (Inr a, Inr b) \<and> a \<le> h \<and> h < b))
   \<and> in_hours [''9-17''] h = Inr (9 \<le> h \<and> h < 17)"
proof -
  have r: "range_bounds ''9-17'' = (Inr 9, Inr 17)"
    by (simp add: range_bounds_def string_defs)
  have one: "in_hours [''9-17''] h = Inr (9 \<le> h \<and> h < 17)"
    using r hours_loop_ranges[of "[''9-17'']" h False]
    by (simp add: in_hours_def has_dash_def)
  have star: "\<not> has_dash ''*''"
    by (simp add: has_dash_def)
  have "in_hours hs h =
        Inr (\<exists>s\<in>set hs. \<exists>a b. range_bounds s = (Inr a, Inr b) \<and> a \<le> h \<and> h < b)"
    if all: "\<forall>s\<in>set hs. has_dash s \<and> (\<exists>a b. range_bounds s = (Inr a, Inr b))"
  proof -
    from all star have "''*'' \<notin> set hs" by blast
    then show ?thesis
      using hours_loop_ranges[OF all, of h False] by (simp add: in_hours_def)
  qed
  with one show ?thesis by blast
qed

theorem range_hours_half_open_witness:
  "in_hours [''20-22'', ''9-17''] 21 = Inr True \<and>
   in_hours [''20-22'', ''9-17''] 8 = Inr False \<and>
   in_hours [''20-22'', ''9-17''] 17 = Inr False \<and>
   in_hours [''9-17''] 16 = Inr True \<and> in_hours [''9-17''] 17 = Inr False"
  using range_hours_half_open[of "[''20-22'', ''9-17'']" 21]
    range_hours_half_open[of "[''20-22'', ''9-17'']" 8]
    range_hours_half_open[of "[''20-22'', ''9-17'']" 17]
    range_hours_half_open[of "[]" 16] range_hours_half_open[of "[]" 17]
  by (simp add: range_bounds_def string_defs)

text \<open>
  C2 as it is written fails for a group with a second range: the hours list
  \<open>["20-22", "9-17"]\<close> (what two \<open>--add --hour\<close> runs leave behind) contains
  \<open>9-17\<close>, and at hour 21 the hour check is true although 21 is not in \<open>[9, 17)\<close>.
\<close>

theorem range_iff_counterexample:
  "''9-17'' \<in> set [''20-22'', ''9-17''] \<and>
   \<not> (in_hours [''20-22'', ''9-17''] 21 = Inr True \<longleftrightarrow> (9::int) \<le> 21 \<and> (21::int) < 17)"
  by (simp add: in_hours_def string_defs)

section \<open>Wildcard collapse in \<open>add\<close>\<close>

text \<open>Every hour or range written with digits passes the test of the hours section.\<close>

lemma digit_passes: "list_ex is_digit s \<Longrightarrow> re_search_hour s"
  by (auto simp: re_search_hour_def list_ex_iff)

lemma add_spec_wildcard: "add_spec ''*'' xs = [''*'']"
  by (simp add: add_spec_def)

lemma add_spec_replaces: "v \<noteq> ''*'' \<Longrightarrow> add_spec v [''*''] = [v]"
  by (simp add: add_spec_def)

lemma add_spec_ok: "wildcard_ok (add_spec v xs)"
  by (simp add: add_spec_def wildcard_ok_def)

lemma never_mixed_upd:
  "never_mixed d \<Longrightarrow> wildcard_ok (hours g) \<Longrightarrow> wildcard_ok (days g) \<Longrightarrow>
   never_mixed (d\<lparr>groups := (groups d)(n \<mapsto> g)\<rparr>)"
  unfolding never_mixed_def
  by (auto simp: ran_def split: if_splits)

lemma never_mixed_active: "never_mixed (d\<lparr>active := a\<rparr>) = never_mixed d"
  by (simp add: never_mixed_def)

lemma never_mixed_lookup:
  "never_mixed d \<Longrightarrow> groups d n = Some g \<Longrightarrow> wildcard_ok (hours g) \<and> wildcard_ok (days g)"
  unfolding never_mixed_def by (auto simp: ran_def)

lemma never_mixed_create: "never_mixed d \<Longrightarrow> never_mixed (add_create opts d)"
  by (simp add: add_create_def never_mixed_upd default_group_def wildcard_ok_def)

lemma never_mixed_upd_hours:
  "never_mixed d \<Longrightarrow> groups d n = Some g \<Longrightarrow>
   never_mixed (d\<lparr>groups := (groups d)(n \<mapsto> g\<lparr>hours := add_spec v (hours g)\<rparr>)\<rparr>)"
  using never_mixed_lookup[of d n g] by (intro never_mixed_upd) (simp_all add: add_spec_ok)

lemma never_mixed_upd_days:
  "never_mixed d \<Longrightarrow> groups d n = Some g \<Longrightarrow>
   never_mixed (d\<lparr>groups := (groups d)(n \<mapsto> g\<lparr>days := add_spec v (days g)\<rparr>)\<rparr>)"
  using never_mixed_lookup[of d n g] by (intro never_mixed_upd) (simp_all add: add_spec_ok)

lemma never_mixed_upd_domains:
  "never_mixed d \<Longrightarrow> groups d n = Some g \<Longrightarrow>
   never_mixed (d\<lparr>groups := (groups d)(n \<mapsto> g\<lparr>domains := xs\<rparr>)\<rparr>)"
  using never_mixed_lookup[of d n g] by (intro never_mixed_upd) simp_all

lemma never_mixed_hours:
  "never_mixed d \<Longrightarrow> add_hours opts n d = Inr d' \<Longrightarrow> never_mixed d'"
  by (auto simp: add_hours_def never_mixed_upd_hours split: option.splits if_splits)

lemma never_mixed_days:
  "never_mixed d \<Longrightarrow> add_days opts n d = Inr d' \<Longrightarrow> never_mixed d'"
  by (auto simp: add_days_def never_mixed_upd_days split: option.splits if_splits)

lemma never_mixed_domains:
  "never_mixed d \<Longrightarrow> add_domains opts n d = Inr d' \<Longrightarrow> never_mixed d'"
  by (auto simp: add_domains_def never_mixed_upd_domains split: option.splits if_splits)

lemma never_mixed_add:
  assumes "never_mixed d" and "add opts d = Inr d'"
  shows "never_mixed d'"
proof -
  from assms(2) obtain d1 d2 d3 where
    s1: "add_hours opts (add_groupname opts) (add_create opts d) = Inr d1" and
    s2: "add_days opts (add_groupname opts) d1 = Inr d2" and
    s3: "add_domains opts (add_groupname opts) d2 = Inr d3" and
    s4: "d' = d3\<lparr>active := active d3 @ [add_groupname opts]\<rparr>"
    by (auto simp: add_def Let_def split: sum.splits)
  have "never_mixed d3"
    using never_mixed_create[OF assms(1), of opts] s1 s2 s3
    by (blast intro: never_mixed_hours never_mixed_days never_mixed_domains)
  then show ?thesis by (simp add: s4 never_mixed_active)
qed

lemma never_mixed_adds: "never_mixed d \<Longrightarrow> adds optss d = Inr d' \<Longrightarrow> never_mixed d'"
  by (induction optss arbitrary: d) (auto split: sum.splits dest: never_mixed_add)

text \<open>The target group exists once the first section of \<open>add\<close> is through.\<close>

lemma add_create_target:
  "truthy (opt_group opts) \<or> groups d ''default'' \<noteq> None \<Longrightarrow>
   groups (add_create opts d) (add_groupname opts) \<noteq> None"
  by (auto simp: add_create_def add_groupname_def truthy_def split: option.splits)

lemma upd_same: "groups d n = Some g \<Longrightarrow> d\<lparr>groups := (groups d)(n \<mapsto> g)\<rparr> = d"
  by (simp add: fun_upd_idem)

lemma add_hours_Some:
  "groups d n = Some g \<Longrightarrow>
   add_hours opts n d =
     Inr (d\<lparr>groups := (groups d)(n \<mapsto> g\<lparr>hours :=
       (case opt_hour opts of
          None \<Rightarrow> hours g
        | Some h \<Rightarrow> if h \<noteq> [] \<and> re_search_hour h then add_spec h (hours g) else hours g)\<rparr>)\<rparr>)"
  by (simp add: add_hours_def upd_same split: option.splits)

lemma add_days_Some:
  "groups d n = Some g \<Longrightarrow>
   add_days opts n d =
     Inr (d\<lparr>groups := (groups d)(n \<mapsto> g\<lparr>days :=
       (case opt_day opts of
          None \<Rightarrow> days g
        | Some y \<Rightarrow> if y \<noteq> [] \<and> y \<in> set days_map then add_spec y (days g) else days g)\<rparr>)\<rparr>)"
  by (simp add: add_days_def upd_same split: option.splits)

lemma add_domains_Some:
  "groups d n = Some g \<Longrightarrow>
   add_domains opts n d =
     Inr (d\<lparr>groups := (groups d)(n \<mapsto> g\<lparr>domains :=
       (case opt_domain opts of
          None \<Rightarrow> domains g
        | Some v \<Rightarrow> if v \<noteq> [] then domains g @ [normalize_domain v] else domains g)\<rparr>)\<rparr>)"
  by (simp add: add_domains_def upd_same split: option.splits)

lemma group_rec_all_upd:
  "(g::group_rec)\<lparr>hours := a, days := b, domains := c\<rparr> = \<lparr>hours = a, domains = c, days = b\<rparr>"
  by (cases g) simp

lemma add_Some:
  assumes "groups (add_create opts d) (add_groupname opts) = Some g"
  shows "add opts d =
     Inr (add_create opts d
       \<lparr>active := active d @ [add_groupname opts],
        groups := (groups (add_create opts d))(add_groupname opts \<mapsto>
          \<lparr>hours = (case opt_hour opts of
               None \<Rightarrow> hours g
             | Some h \<Rightarrow> if h \<noteq> [] \<and> re_search_hour h then add_spec h (hours g) else hours g),
           domains = (case opt_domain opts of
               None \<Rightarrow> domains g
             | Some v \<Rightarrow> if v \<noteq> [] then domains g @ [normalize_domain v] else domains g),
           days = (case opt_day opts of
               None \<Rightarrow> days g
             | Some y \<Rightarrow> if y \<noteq> [] \<and> y \<in> set days_map then add_spec y (days g) else days g)\<rparr>)\<rparr>)"
proof -
  define hs where "hs = (case opt_hour opts of
               None \<Rightarrow> hours g
             | Some h \<Rightarrow> if h \<noteq> [] \<and> re_search_hour h then add_spec h (hours g) else hours g)"
  define ds where "ds = (case opt_day opts of
               None \<Rightarrow> days g
             | Some y \<Rightarrow> if y \<noteq> [] \<and> y \<in> set days_map then add_spec y (days g) else days g)"
  define ms where "ms = (case opt_domain opts of
               None \<Rightarrow> domains g
             | Some v \<Rightarrow> if v \<noteq> [] then domains g @ [normalize_domain v] else domains g)"
  define n where "n = add_groupname opts"
  define d0 where "d0 = add_create opts d"
  have a: "active d0 = active d"
    by (simp add: d0_def add_create_def)
  have g0: "groups d0 n = Some g"
    using assms by (simp add: d0_def n_def)
  have s1: "add_hours opts n d0 = Inr (d0\<lparr>groups := (groups d0)(n \<mapsto> g\<lparr>hours := hs\<rparr>)\<rparr>)"
    unfolding hs_def by (rule add_hours_Some[OF g0])
  have s2: "add_days opts n (d0\<lparr>groups := (groups d0)(n \<mapsto> g\<lparr>hours := hs\<rparr>)\<rparr>)
      = Inr (d0\<lparr>groups := (groups d0)(n \<mapsto> g\<lparr>hours := hs, days := ds\<rparr>)\<rparr>)"
    using add_days_Some[of "d0\<lparr>groups := (groups d0)(n \<mapsto> g\<lparr>hours := hs\<rparr>)\<rparr>" n "g\<lparr>hours := hs\<rparr>" opts]
    by (simp add: ds_def cong: option.case_cong if_cong)
  have s3: "add_domains opts n (d0\<lparr>groups := (groups d0)(n \<mapsto> g\<lparr>hours := hs, days := ds\<rparr>)\<rparr>)
      = Inr (d0\<lparr>groups := (groups d0)(n \<mapsto> g\<lparr>hours := hs, days := ds, domains := ms\<rparr>)\<rparr>)"
    using add_domains_Some[of "d0\<lparr>groups := (groups d0)(n \<mapsto> g\<lparr>hours := hs, days := ds\<rparr>)\<rparr>" n
        "g\<lparr>hours := hs, days := ds\<rparr>" opts]
    by (simp add: ms_def cong: option.case_cong if_cong)
  have "add opts d =
      Inr (d0\<lparr>active := active d @ [n],
              groups := (groups d0)(n \<mapsto> \<lparr>hours = hs, domains = ms, days = ds\<rparr>)\<rparr>)"
    unfolding add_def Let_def n_def[symmetric] d0_def[symmetric]
    by (simp add: s1 s2 s3 a group_rec_all_upd)
  then show ?thesis
    by (simp add: hs_def ds_def ms_def n_def d0_def)
qed

text \<open>
  C3. Whenever \<open>add\<close> has a group to work on (a group is named, or \<open>default\<close>
  exists) it returns, and for the target group, with \<open>g\<close> the group as the hours and
  days sections find it (the stored one, or the default just created) and \<open>g'\<close> the
  group afterwards: adding the wildcard hour leaves the hours exactly \<open>["*"]\<close>, adding
  the wildcard day leaves the days exactly \<open>["*"]\<close>; adding any other hour that passes
  the script's test (every concrete hour or range does: it has a digit) to hours that are
  exactly \<open>["*"]\<close> leaves exactly that hour, and adding one of the seven day names to
  days that are exactly \<open>["*"]\<close> leaves exactly that day. Hence a document in which no
  hours or days list mixes the wildcard with other entries stays so under every sequence of
  \<open>add\<close> runs, which all return when \<open>default\<close> exists; the initial document is such a
  document.
\<close>

theorem add_wildcard_collapse:
  "(truthy (opt_group opts) \<or> groups d ''default'' \<noteq> None \<longrightarrow>
     (\<exists>d' g g'. add opts d = Inr d' \<and>
        groups (add_create opts d) (add_groupname opts) = Some g \<and>
        groups d' (add_groupname opts) = Some g' \<and>
        (opt_hour opts = Some ''*'' \<longrightarrow> hours g' = [''*'']) \<and>
        (opt_day opts = Some ''*'' \<longrightarrow> days g' = [''*'']) \<and>
        (\<forall>s. opt_hour opts = Some s \<and> s \<noteq> ''*'' \<and> re_search_hour s \<and> hours g = [''*'']
              \<longrightarrow> hours g' = [s]) \<and>
        (\<forall>s. opt_day opts = Some s \<and> s \<noteq> ''*'' \<and> s \<in> set days_map \<and> days g = [''*'']
              \<longrightarrow> days g' = [s])))
   \<and> (never_mixed d \<and> adds optss d = Inr d'' \<longrightarrow> never_mixed d'')
   \<and> (never_mixed d \<and> groups d ''default'' \<noteq> None \<longrightarrow>
        (\<exists>d'. adds optss d = Inr d' \<and> never_mixed d'))
   \<and> never_mixed skeleton"
proof (intro conjI impI)
  assume ok: "truthy (opt_group opts) \<or> groups d ''default'' \<noteq> None"
  then obtain g where g: "groups (add_create opts d) (add_groupname opts) = Some g"
    using add_create_target[of opts d] by auto
  show "\<exists>d' g g'. add opts d = Inr d' \<and>
        groups (add_create opts d) (add_groupname opts) = Some g \<and>
        groups d' (add_groupname opts) = Some g' \<and>
        (opt_hour opts = Some ''*'' \<longrightarrow> hours g' = [''*'']) \<and>
        (opt_day opts = Some ''*'' \<longrightarrow> days g' = [''*'']) \<and>
        (\<forall>s. opt_hour opts = Some s \<and> s \<noteq> ''*'' \<and> re_search_hour s \<and> hours g = [''*'']
              \<longrightarrow> hours g' = [s]) \<and>
        (\<forall>s. opt_day opts = Some s \<and> s \<noteq> ''*'' \<and> s \<in> set days_map \<and> days g = [''*'']
              \<longrightarrow> days g' = [s])"
    unfolding add_Some[OF g] using g
    by (auto simp: add_spec_wildcard add_spec_replaces re_search_hour_def days_map_def)
next
  assume "never_mixed d \<and> adds optss d = Inr d''"
  then show "never_mixed d''" using never_mixed_adds by blast
next
  show "never_mixed skeleton"
    by (simp add: never_mixed_def skeleton_def default_group_def wildcard_ok_def)
next
  assume a: "never_mixed d \<and> groups d ''default'' \<noteq> None"
  have "groups d ''default'' \<noteq> None \<Longrightarrow> \<exists>d'. adds optss d = Inr d'"
  proof (induction optss arbitrary: d)
    case Nil
    then show ?case by simp
  next
    case (Cons o1 rest)
    from Cons.prems obtain g where g: "groups (add_create o1 d) (add_groupname o1) = Some g"
      using add_create_target[of o1 d] by auto
    have keep: "groups (add_create o1 d) ''default'' \<noteq> None"
      using Cons.prems by (simp add: add_create_def)
    show ?case
      using Cons.IH keep unfolding adds.simps add_Some[OF g]
      by (simp split: if_splits)
  qed
  with a never_mixed_adds show "\<exists>d'. adds optss d = Inr d' \<and> never_mixed d'" by blast
qed


theorem add_wildcard_collapse_witness:
  "add \<lparr>opt_group = None, opt_hour = Some ''9-17'', opt_day = Some ''Monday'',
        opt_domain = None, opt_empty = None\<rparr> skeleton
     = Inr \<lparr>active = [''default'', ''default''],
            groups = [''default'' \<mapsto> \<lparr>hours = [''9-17''], domains = [], days = [''Monday'']\<rparr>]\<rparr>
   \<and> add \<lparr>opt_group = None, opt_hour = Some ''*'', opt_day = Some ''*'',
        opt_domain = None, opt_empty = None\<rparr>
       \<lparr>active = [''default''],
        groups = [''default'' \<mapsto> \<lparr>hours = [''8'', ''9-17''], domains = [], days = [''Monday'']\<rparr>]\<rparr>
     = Inr \<lparr>active = [''default'', ''default''],
            groups = [''default'' \<mapsto> \<lparr>hours = [''*''], domains = [], days = [''*'']\<rparr>]\<rparr>
   \<and> never_mixed \<lparr>active = [''default'', ''default''],
            groups = [''default'' \<mapsto> \<lparr>hours = [''9-17''], domains = [], days = [''Monday'']\<rparr>]\<rparr>"
  using add_wildcard_collapse[of
      "\<lparr>opt_group = None, opt_hour = Some ''9-17'', opt_day = Some ''Monday'',
        opt_domain = None, opt_empty = None\<rparr>" skeleton
      "[\<lparr>opt_group = None, opt_hour = Some ''9-17'', opt_day = Some ''Monday'',
        opt_domain = None, opt_empty = None\<rparr>]"
      "\<lparr>active = [''default'', ''default''],
            groups = [''default'' \<mapsto> \<lparr>hours = [''9-17''], domains = [], days = [''Monday'']\<rparr>]\<rparr>"]
    add_wildcard_collapse[of
      "\<lparr>opt_group = None, opt_hour = Some ''*'', opt_day = Some ''*'',
        opt_domain = None, opt_empty = None\<rparr>"
      "\<lparr>active = [''default''],
        groups = [''default'' \<mapsto> \<lparr>hours = [''8'', ''9-17''], domains = [], days = [''Monday'']\<rparr>]\<rparr>"
      "[]" skeleton]
  by (simp add: add_defs)


section \<open>The blocked domains\<close>

lemma unsigned_int_error: "unsigned_int s = Inl e \<Longrightarrow> e = ValueError"
  by (simp add: unsigned_int_def split: if_splits)

lemma py_int_error: "py_int s = Inl e \<Longrightarrow> e = ValueError"
  by (auto simp: py_int_def split: list.splits if_splits sum.splits dest: unsigned_int_error)

lemma hours_loop_error: "hours_loop h ss acc = Inl e \<Longrightarrow> e = ValueError"
  by (induction ss arbitrary: acc)
     (auto split: if_splits prod.splits sum.splits dest: py_int_error)

lemma is_live_error: "is_live d n now = Inl e \<Longrightarrow> e = ValueError"
  by (auto simp: is_live_def in_hours_def split: option.splits sum.splits if_splits
      dest: hours_loop_error)

lemma set_fold_insert: "set (fold List.insert xs acc) = set xs \<union> set acc"
  by (induction xs arbitrary: acc) auto

lemma distinct_fold_insert: "distinct acc \<Longrightarrow> distinct (fold List.insert xs acc)"
  by (induction xs arbitrary: acc) auto

lemma collect_domains_Inr:
  "collect_domains d now names acc = Inr doms \<Longrightarrow>
   set doms = set acc \<union> {x. \<exists>n\<in>set names. \<exists>g. groups d n = Some g \<and>
                              is_live d n now = Inr True \<and> x \<in> set (domains g)}"
proof (induction names arbitrary: acc)
  case Nil
  then show ?case by simp
next
  case (Cons n ns)
  show ?case
  proof (cases "groups d n")
    case None
    with Cons show ?thesis by auto
  next
    case (Some g)
    with Cons.prems obtain live where l: "is_live d n now = Inr live"
      and r: "collect_domains d now ns (if live then fold List.insert (domains g) acc else acc) = Inr doms"
      by (auto split: sum.splits)
    from Cons.IH[OF r] Some l show ?thesis
      by (cases live) (auto simp: set_fold_insert)
  qed
qed

lemma collect_domains_distinct:
  "collect_domains d now names acc = Inr doms \<Longrightarrow> distinct acc \<Longrightarrow> distinct doms"
proof (induction names arbitrary: acc)
  case Nil
  then show ?case by simp
next
  case (Cons n ns)
  then show ?case
    by (auto split: option.splits sum.splits if_splits intro: distinct_fold_insert)
qed

lemma collect_domains_returns:
  "(\<exists>doms. collect_domains d now names acc = Inr doms) \<longleftrightarrow>
   (\<forall>n\<in>set names. groups d n \<noteq> None \<longrightarrow> (\<exists>b. is_live d n now = Inr b))"
proof (induction names arbitrary: acc)
  case Nil
  then show ?case by simp
next
  case (Cons n ns)
  show ?case
  proof (cases "groups d n")
    case None
    with Cons show ?thesis by simp
  next
    case (Some g)
    show ?thesis
    proof (cases "is_live d n now")
      case (Inl e)
      with Some show ?thesis by auto
    next
      case (Inr b)
      with Some Cons.IH[of "if b then fold List.insert (domains g) acc else acc"]
      show ?thesis by simp
    qed
  qed
qed

lemma collect_domains_error: "collect_domains d now names acc = Inl e \<Longrightarrow> e = ValueError"
  by (induction names arbitrary: acc)
     (auto split: option.splits sum.splits dest: is_live_error)

lemma blocked_domains_error: "blocked_domains d now = Inl e \<Longrightarrow> e = ValueError"
  by (auto simp: blocked_domains_def split: sum.splits dest: collect_domains_error)

lemma blocked_domains_returns:
  "(\<exists>ds. blocked_domains d now = Inr ds) \<longleftrightarrow>
   (\<forall>n\<in>set (active d). groups d n \<noteq> None \<longrightarrow> (\<exists>b. is_live d n now = Inr b))"
proof -
  have "(\<exists>ds. blocked_domains d now = Inr ds) \<longleftrightarrow>
        (\<exists>doms. collect_domains d now (active d) [] = Inr doms)"
    by (auto simp: blocked_domains_def split: sum.splits)
  then show ?thesis by (simp add: collect_domains_returns)
qed

lemma blocked_domains_set:
  assumes "blocked_domains d now = Inr ds"
  shows "sorted ds \<and> distinct ds \<and>
      set ds = {x. \<exists>n\<in>set (active d). \<exists>g. groups d n = Some g \<and>
                     is_live d n now = Inr True \<and> x \<in> set (domains g)}"
proof -
  from assms obtain doms where c: "collect_domains d now (active d) [] = Inr doms"
    and ds: "ds = sort doms"
    by (auto simp: blocked_domains_def split: sum.splits if_splits)
  show ?thesis
    using collect_domains_distinct[OF c] collect_domains_Inr[OF c] by (simp add: ds)
qed

text \<open>
  C4. Whenever the list of blocked domains is computed, it is sorted ascending in the
  lexicographic order of strings, has no duplicates, and holds exactly the domains of the
  groups whose name is in \<open>active\<close>, that exist in \<open>groups\<close> and for which
  \<open>_is_live\<close> is true at the instant. It is computed exactly when \<open>_is_live\<close> returns
  for every name of \<open>active\<close> that has a group: a name of \<open>active\<close> without a group
  and a group that is not in \<open>active\<close> contribute nothing and raise nothing.
\<close>

theorem blocked_domains_correct:
  "(\<forall>ds. blocked_domains d now = Inr ds \<longrightarrow>
      sorted ds \<and> distinct ds \<and>
      set ds = {x. \<exists>n\<in>set (active d). \<exists>g. groups d n = Some g \<and>
                     is_live d n now = Inr True \<and> x \<in> set (domains g)})
   \<and> ((\<exists>ds. blocked_domains d now = Inr ds) \<longleftrightarrow>
        (\<forall>n\<in>set (active d). groups d n \<noteq> None \<longrightarrow> (\<exists>b. is_live d n now = Inr b)))"
  using blocked_domains_set[of d now] blocked_domains_returns[of d now] by blast

theorem blocked_domains_correct_witness:
  "blocked_domains
     \<lparr>active = [''work'', ''ghost''],
      groups = [''work'' \<mapsto> \<lparr>hours = [''9-17''], domains = [''foo.com'', ''example.com''],
                               days = [''Monday'', ''Tuesday'']\<rparr>,
                ''play'' \<mapsto> \<lparr>hours = [''*''], domains = [''zzz.com''], days = [''*'']\<rparr>]\<rparr>
     \<lparr>hour = 10, weekday = 0\<rparr> = Inr [''example.com'', ''foo.com'']"
  using blocked_domains_correct[of
     "\<lparr>active = [''work'', ''ghost''],
      groups = [''work'' \<mapsto> \<lparr>hours = [''9-17''], domains = [''foo.com'', ''example.com''],
                               days = [''Monday'', ''Tuesday'']\<rparr>,
                ''play'' \<mapsto> \<lparr>hours = [''*''], domains = [''zzz.com''], days = [''*'']\<rparr>]\<rparr>"
     "\<lparr>hour = 10, weekday = 0\<rparr>"]
  by (simp add: live_defs string_defs)

section \<open>The rendered body\<close>

lemma join_lines:
  "xs \<noteq> [] \<Longrightarrow> sep @ join sep xs = concat (map (\<lambda>x. sep @ x) xs)"
  by (induction sep xs rule: join.induct) auto

text \<open>
  C5. The body the code builds from a set of domains is the body of the specification for
  the sorted list of the set: empty for no domains, otherwise the lines
  \<open>address TAB domain\<close>, one for each domain, with one newline before the first and one
  between each line and the next. So the body \<open>update_hosts\<close> appends is that text for
  the list of blocked domains and the script's blackhole address.
\<close>

theorem render_body_spec:
  "render_body blackhole doms = spec_body blackhole (sort doms) \<and>
   (blocked_domains d now = Inr ds \<longrightarrow>
      update_hosts_body d now = Inr (spec_body hosts_file_blackhole ds))"
proof
  have ne: "xs \<noteq> [] \<Longrightarrow> sort xs \<noteq> []" for xs :: "string list"
    by (metis length_sort length_0_conv)
  show r: "render_body blackhole doms = spec_body blackhole (sort doms)" for blackhole doms
    using join_lines[of "sort doms" "[CHR 0x0A] @ blackhole @ [CHR 0x09]"] ne[of doms]
    by (cases "doms = []") (auto simp: render_body_def spec_body_def spec_line_def Let_def)
  show "blocked_domains d now = Inr ds \<longrightarrow>
      update_hosts_body d now = Inr (spec_body hosts_file_blackhole ds)"
    by (auto simp: blocked_domains_def update_hosts_body_def r spec_body_def
        split: sum.splits if_splits)
qed

theorem render_body_spec_witness:
  "update_hosts_body
     \<lparr>active = [''work''],
      groups = [''work'' \<mapsto> \<lparr>hours = [''9-17''],
                               domains = [''foo.com'', ''example.com'', ''bar.org''],
                               days = [''Monday'', ''Tuesday'']\<rparr>]\<rparr>
     \<lparr>hour = 10, weekday = 0\<rparr>
   = Inr ([CHR 0x0A] @ ''127.0.0.250'' @ [CHR 0x09] @ ''bar.org'' @
          [CHR 0x0A] @ ''127.0.0.250'' @ [CHR 0x09] @ ''example.com'' @
          [CHR 0x0A] @ ''127.0.0.250'' @ [CHR 0x09] @ ''foo.com'')
   \<and> update_hosts_body
     \<lparr>active = [''work''],
      groups = [''work'' \<mapsto> \<lparr>hours = [''9-17''],
                               domains = [''foo.com'', ''example.com'', ''bar.org''],
                               days = [''Monday'', ''Tuesday'']\<rparr>]\<rparr>
     \<lparr>hour = 17, weekday = 0\<rparr> = Inr []
   \<and> render_body ''10.0.0.1'' [''d.com'', ''b.com'', ''a.com'', ''c.com'']
     = [CHR 0x0A] @ ''10.0.0.1'' @ [CHR 0x09] @ ''a.com'' @
       [CHR 0x0A] @ ''10.0.0.1'' @ [CHR 0x09] @ ''b.com'' @
       [CHR 0x0A] @ ''10.0.0.1'' @ [CHR 0x09] @ ''c.com'' @
       [CHR 0x0A] @ ''10.0.0.1'' @ [CHR 0x09] @ ''d.com''"
  using render_body_spec[of "''10.0.0.1''" "[''d.com'', ''b.com'', ''a.com'', ''c.com'']"
     "\<lparr>active = [''work''],
      groups = [''work'' \<mapsto> \<lparr>hours = [''9-17''],
                               domains = [''foo.com'', ''example.com'', ''bar.org''],
                               days = [''Monday'', ''Tuesday'']\<rparr>]\<rparr>"
     "\<lparr>hour = 10, weekday = 0\<rparr>" "[''bar.org'', ''example.com'', ''foo.com'']"]
   render_body_spec[of hosts_file_blackhole "[]"
     "\<lparr>active = [''work''],
      groups = [''work'' \<mapsto> \<lparr>hours = [''9-17''],
                               domains = [''foo.com'', ''example.com'', ''bar.org''],
                               days = [''Monday'', ''Tuesday'']\<rparr>]\<rparr>"
     "\<lparr>hour = 17, weekday = 0\<rparr>" "[]"]
  by (simp add: live_defs string_defs spec_body_def spec_line_def)

section \<open>Emptying the hours\<close>

text \<open>
  C9. For a group that exists under the lower-cased name given with \<open>--group\<close>,
  \<open>--empty hours\<close> returns a document in which that group has the empty hours list and is
  otherwise unchanged, and \<open>_is_live\<close> for the group is then false at every instant: the
  hour check of an empty list is false at every hour, while that of the wildcard list is
  true.
\<close>

theorem empty_hours_never_live:
  "opt_group opts = Some n \<and> n \<noteq> [] \<and> opt_empty opts = Some ''hours'' \<and>
   groups d (lower n) = Some g \<longrightarrow>
     (\<exists>d'. empty_field opts d = Inr d' \<and>
           groups d' (lower n) = Some (g\<lparr>hours := []\<rparr>) \<and>
           (\<forall>now. is_live d' (lower n) now = Inr False) \<and>
           (\<forall>h. in_hours (hours (g\<lparr>hours := []\<rparr>)) h = Inr False \<and> in_hours [''*''] h = Inr True))"
  by (auto simp: empty_field_def is_live_def in_hours_def)

theorem empty_hours_never_live_witness:
  "empty_field \<lparr>opt_group = Some ''Work'', opt_hour = None, opt_day = None, opt_domain = None,
                opt_empty = Some ''hours''\<rparr>
     \<lparr>active = [''work''],
      groups = [''work'' \<mapsto> \<lparr>hours = [''9-17''], domains = [''example.com''], days = [''*'']\<rparr>]\<rparr>
   = Inr \<lparr>active = [''work''],
      groups = [''work'' \<mapsto> \<lparr>hours = [], domains = [''example.com''], days = [''*'']\<rparr>]\<rparr>
   \<and> is_live \<lparr>active = [''work''],
      groups = [''work'' \<mapsto> \<lparr>hours = [], domains = [''example.com''], days = [''*'']\<rparr>]\<rparr>
      ''work'' \<lparr>hour = 10, weekday = 0\<rparr> = Inr False"
  using empty_hours_never_live[of
     "\<lparr>opt_group = Some ''Work'', opt_hour = None, opt_day = None, opt_domain = None,
                opt_empty = Some ''hours''\<rparr>" "''Work''"
     "\<lparr>active = [''work''],
      groups = [''work'' \<mapsto> \<lparr>hours = [''9-17''], domains = [''example.com''], days = [''*'']\<rparr>]\<rparr>"
     "\<lparr>hours = [''9-17''], domains = [''example.com''], days = [''*'']\<rparr>"]
  by (simp add: empty_field_def lower_def lower_char_def is_live_def in_hours_def)

section \<open>Deactivating a group that is listed twice\<close>

lemma count_remove1:
  "count_list (remove1 n xs) m = (if m = n \<and> n \<in> set xs then count_list xs m - 1 else count_list xs m)"
  by (induction xs) auto

lemma set_remove1_twice:
  assumes "count_list xs n \<ge> 2"
  shows "set (remove1 n xs) = set xs"
proof (intro set_eqI iffI)
  fix x assume "x \<in> set (remove1 n xs)"
  then show "x \<in> set xs" using set_remove1_subset[of n xs] by blast
next
  fix x assume x: "x \<in> set xs"
  have "count_list (remove1 n xs) n \<ge> 1"
    using assms by (simp add: count_remove1)
  then have "n \<in> set (remove1 n xs)"
    by (metis count_list_0_iff not_one_le_zero)
  with x show "x \<in> set (remove1 n xs)"
    by (cases "x = n") (simp_all add: in_set_remove1)
qed

lemma is_live_groups: "groups d' = groups d \<Longrightarrow> is_live d' = is_live d"
  by (auto simp: is_live_def fun_eq_iff)

lemma sorted_distinct_eq:
  "sorted xs \<Longrightarrow> distinct xs \<Longrightarrow> sorted ys \<Longrightarrow> distinct ys \<Longrightarrow> set xs = set ys \<Longrightarrow>
   xs = (ys :: string list)"
  by (rule sorted_distinct_set_unique)

lemma blocked_domains_cong:
  assumes a: "set (active d') = set (active d)" and g: "groups d' = groups d"
  shows "blocked_domains d' now = blocked_domains d now"
proof (cases "blocked_domains d now")
  case (Inl e)
  then have e: "e = ValueError" by (rule blocked_domains_error)
  from Inl have "\<not> (\<exists>ds. blocked_domains d now = Inr ds)" by simp
  then have "\<not> (\<exists>ds. blocked_domains d' now = Inr ds)"
    unfolding blocked_domains_returns by (simp add: a g is_live_groups[OF g])
  then obtain e' where e': "blocked_domains d' now = Inl e'"
    by (cases "blocked_domains d' now") auto
  with blocked_domains_error[OF e'] Inl e show ?thesis by simp
next
  case (Inr ds)
  then have "\<exists>ds. blocked_domains d now = Inr ds" by blast
  then have "\<exists>ds. blocked_domains d' now = Inr ds"
    unfolding blocked_domains_returns by (simp add: a g is_live_groups[OF g])
  then obtain ds' where ds': "blocked_domains d' now = Inr ds'" by blast
  have "ds' = ds"
    using blocked_domains_set[OF ds'] blocked_domains_set[OF Inr]
    by (intro sorted_distinct_eq) (simp_all add: a g is_live_groups[OF g])
  with Inr ds' show ?thesis by simp
qed

text \<open>
  C10. When \<open>active\<close> holds the name of an existing group at least twice, one
  \<open>--deactivate\<close> of that name removes its first occurrence and nothing else: the count
  of the name drops by one, the counts of the other names and the groups are unchanged, the
  name is still in \<open>active\<close>, and the list of blocked domains is the same as before at
  every instant; so when the group is live its domains are still blocked.
\<close>

theorem deactivate_duplicate_stays:
  "opt_group opts = Some n \<and> count_list (active d) n \<ge> 2 \<and> groups d n = Some g \<longrightarrow>
     active (deactivate opts d) = remove1 n (active d) \<and>
     count_list (active (deactivate opts d)) n = count_list (active d) n - 1 \<and>
     (\<forall>m. m \<noteq> n \<longrightarrow> count_list (active (deactivate opts d)) m = count_list (active d) m) \<and>
     n \<in> set (active (deactivate opts d)) \<and>
     groups (deactivate opts d) = groups d \<and>
     (\<forall>now. blocked_domains (deactivate opts d) now = blocked_domains d now) \<and>
     (\<forall>now ds. is_live d n now = Inr True \<and> blocked_domains (deactivate opts d) now = Inr ds
         \<longrightarrow> set (domains g) \<subseteq> set ds)"
proof (intro impI)
  assume h: "opt_group opts = Some n \<and> count_list (active d) n \<ge> 2 \<and> groups d n = Some g"
  then have mem: "n \<in> set (active d)"
    by (metis count_list_0_iff not_numeral_le_zero)
  have act: "active (deactivate opts d) = remove1 n (active d)"
    using h mem by (simp add: deactivate_def)
  have grp: "groups (deactivate opts d) = groups d"
    using h by (simp add: deactivate_def)
  have st: "set (active (deactivate opts d)) = set (active d)"
    using h by (simp add: act set_remove1_twice)
  have same: "blocked_domains (deactivate opts d) now = blocked_domains d now" for now
    by (rule blocked_domains_cong[OF st grp])
  have incl: "\<forall>now ds. is_live d n now = Inr True \<and> blocked_domains d now = Inr ds
         \<longrightarrow> set (domains g) \<subseteq> set ds"
  proof (intro allI impI)
    fix now ds
    assume l: "is_live d n now = Inr True \<and> blocked_domains d now = Inr ds"
    then show "set (domains g) \<subseteq> set ds"
      using blocked_domains_set[of d now ds] h mem by auto
  qed
  show "active (deactivate opts d) = remove1 n (active d) \<and>
     count_list (active (deactivate opts d)) n = count_list (active d) n - 1 \<and>
     (\<forall>m. m \<noteq> n \<longrightarrow> count_list (active (deactivate opts d)) m = count_list (active d) m) \<and>
     n \<in> set (active (deactivate opts d)) \<and>
     groups (deactivate opts d) = groups d \<and>
     (\<forall>now. blocked_domains (deactivate opts d) now = blocked_domains d now) \<and>
     (\<forall>now ds. is_live d n now = Inr True \<and> blocked_domains (deactivate opts d) now = Inr ds
         \<longrightarrow> set (domains g) \<subseteq> set ds)"
    using act grp st same incl mem by (simp add: count_remove1)
qed


theorem deactivate_duplicate_stays_witness:
  "adds [\<lparr>opt_group = Some ''work'', opt_hour = None, opt_day = None,
          opt_domain = Some ''example.com'', opt_empty = None\<rparr>,
         \<lparr>opt_group = Some ''work'', opt_hour = None, opt_day = None,
          opt_domain = Some ''foo.com'', opt_empty = None\<rparr>] skeleton
     = Inr \<lparr>active = [''default'', ''work'', ''work''],
            groups = [''default'' \<mapsto> default_group,
                      ''work'' \<mapsto> \<lparr>hours = [''*''], domains = [''example.com'', ''foo.com''],
                                       days = [''*'']\<rparr>]\<rparr>
   \<and> active (deactivate
        \<lparr>opt_group = Some ''work'', opt_hour = None, opt_day = None, opt_domain = None,
         opt_empty = None\<rparr>
        \<lparr>active = [''default'', ''work'', ''work''],
            groups = [''default'' \<mapsto> default_group,
                      ''work'' \<mapsto> \<lparr>hours = [''*''], domains = [''example.com'', ''foo.com''],
                                       days = [''*'']\<rparr>]\<rparr>) = [''default'', ''work'']
   \<and> blocked_domains (deactivate
        \<lparr>opt_group = Some ''work'', opt_hour = None, opt_day = None, opt_domain = None,
         opt_empty = None\<rparr>
        \<lparr>active = [''default'', ''work'', ''work''],
            groups = [''default'' \<mapsto> default_group,
                      ''work'' \<mapsto> \<lparr>hours = [''*''], domains = [''example.com'', ''foo.com''],
                                       days = [''*'']\<rparr>]\<rparr>) \<lparr>hour = 10, weekday = 0\<rparr>
     = Inr [''example.com'', ''foo.com'']"
  using deactivate_duplicate_stays[of
        "\<lparr>opt_group = Some ''work'', opt_hour = None, opt_day = None, opt_domain = None,
         opt_empty = None\<rparr>" "''work''"
        "\<lparr>active = [''default'', ''work'', ''work''],
            groups = [''default'' \<mapsto> default_group,
                      ''work'' \<mapsto> \<lparr>hours = [''*''], domains = [''example.com'', ''foo.com''],
                                       days = [''*'']\<rparr>]\<rparr>"
        "\<lparr>hours = [''*''], domains = [''example.com'', ''foo.com''], days = [''*'']\<rparr>"]
  by (simp add: add_defs deactivate_def live_defs)

section \<open>Domains and the active list in \<open>add\<close>\<close>

text \<open>
  C6. The domain is stored lower-cased and without a leading \<open>http://\<close>, as the claim
  says, but it is appended whether or not the group has it already (the hours and days
  sections of the same method remove duplicates before saving; the domains section does
  not): after \<open>--add --group work --domain HTTP://Example.com\<close> and
  \<open>--add --group work --domain example.com\<close> the group holds \<open>example.com\<close> twice.
\<close>

theorem add_domain_appends_duplicate:
  "adds [\<lparr>opt_group = Some ''work'', opt_hour = None, opt_day = None,
          opt_domain = Some ''HTTP://Example.com'', opt_empty = None\<rparr>,
         \<lparr>opt_group = Some ''work'', opt_hour = None, opt_day = None,
          opt_domain = Some ''example.com'', opt_empty = None\<rparr>] skeleton
     = Inr \<lparr>active = [''default'', ''work'', ''work''],
            groups = [''default'' \<mapsto> default_group,
                      ''work'' \<mapsto> \<lparr>hours = [''*''],
                                       domains = [''example.com'', ''example.com''],
                                       days = [''*'']\<rparr>]\<rparr>"
  by (simp add: add_defs)

text \<open>
  C7. The last statement of \<open>add\<close> appends the group name to \<open>active\<close> without
  looking whether it is there: one \<open>--add --domain example.com\<close> on the initial document
  leaves \<open>active\<close> as \<open>["default", "default"]\<close>. The method \<open>activate\<close> does
  test for membership first and leaves the initial document as it is.
\<close>

theorem add_appends_active_again:
  "add \<lparr>opt_group = None, opt_hour = None, opt_day = None,
        opt_domain = Some ''example.com'', opt_empty = None\<rparr> skeleton
     = Inr \<lparr>active = [''default'', ''default''],
            groups = [''default'' \<mapsto> \<lparr>hours = [''*''], domains = [''example.com''],
                                          days = [''*'']\<rparr>]\<rparr>
   \<and> \<not> distinct [''default'', ''default'']
   \<and> activate \<lparr>opt_group = Some ''default'', opt_hour = None, opt_day = None,
        opt_domain = None, opt_empty = None\<rparr> skeleton = skeleton"
  by (simp add: add_defs activate_def)

section \<open>Hours that fail the test of \<open>add\<close>\<close>

lemma add_without_hour:
  assumes "opt_hour opts = Some s" and "\<not> re_search_hour s"
  shows "add opts d = add (opts\<lparr>opt_hour := None\<rparr>) d"
proof -
  have n: "add_groupname (opts\<lparr>opt_hour := None\<rparr>) = add_groupname opts"
    by (simp add: add_groupname_def)
  have c: "add_create (opts\<lparr>opt_hour := None\<rparr>) d = add_create opts d"
    by (simp add: add_create_def n)
  have h: "add_hours opts m x = Inr x" "add_hours (opts\<lparr>opt_hour := None\<rparr>) m x = Inr x" for m x
    using assms by (simp_all add: add_hours_def)
  have y: "add_days (opts\<lparr>opt_hour := None\<rparr>) m x = add_days opts m x" for m x
    by (simp add: add_days_def)
  have v: "add_domains (opts\<lparr>opt_hour := None\<rparr>) m x = add_domains opts m x" for m x
    by (simp add: add_domains_def)
  show ?thesis
    by (simp add: add_def Let_def n c h y v cong: sum.case_cong)
qed

text \<open>
  C8, as the code has it. The only test on an hour is that some character of it is a digit,
  a dash or a star. An hour that fails the test is not stored, and nothing is raised: the
  run is the run without \<open>--hour\<close>. When there is a group to work on, it returns; the
  target group keeps the hours it had when the hours section was reached (those of the stored
  group, or the wildcard of a group just created), and the group name is appended to
  \<open>active\<close>.
\<close>

theorem add_hour_rejected:
  "opt_hour opts = Some s \<and> \<not> re_search_hour s \<longrightarrow>
     add opts d = add (opts\<lparr>opt_hour := None\<rparr>) d \<and>
     (truthy (opt_group opts) \<or> groups d ''default'' \<noteq> None \<longrightarrow>
        (\<exists>d' g g'. add opts d = Inr d' \<and>
           groups (add_create opts d) (add_groupname opts) = Some g \<and>
           groups d' (add_groupname opts) = Some g' \<and>
           hours g' = hours g \<and>
           active d' = active d @ [add_groupname opts]))"
proof (intro impI conjI)
  assume a: "opt_hour opts = Some s \<and> \<not> re_search_hour s"
  then show "add opts d = add (opts\<lparr>opt_hour := None\<rparr>) d"
    using add_without_hour by blast
  assume "truthy (opt_group opts) \<or> groups d ''default'' \<noteq> None"
  then obtain g where g: "groups (add_create opts d) (add_groupname opts) = Some g"
    using add_create_target[of opts d] by auto
  show "\<exists>d' g g'. add opts d = Inr d' \<and>
           groups (add_create opts d) (add_groupname opts) = Some g \<and>
           groups d' (add_groupname opts) = Some g' \<and>
           hours g' = hours g \<and>
           active d' = active d @ [add_groupname opts]"
    unfolding add_Some[OF g] using g a by simp
qed

theorem add_hour_rejected_witness:
  "add \<lparr>opt_group = Some ''work'', opt_hour = Some ''abc'', opt_day = None,
        opt_domain = None, opt_empty = None\<rparr> skeleton
   = add \<lparr>opt_group = Some ''work'', opt_hour = None, opt_day = None,
        opt_domain = None, opt_empty = None\<rparr> skeleton
   \<and> add \<lparr>opt_group = Some ''work'', opt_hour = Some ''abc'', opt_day = None,
        opt_domain = None, opt_empty = None\<rparr> skeleton
     = Inr \<lparr>active = [''default'', ''work''],
            groups = [''default'' \<mapsto> default_group, ''work'' \<mapsto> default_group]\<rparr>"
  using add_hour_rejected[of
     "\<lparr>opt_group = Some ''work'', opt_hour = Some ''abc'', opt_day = None,
        opt_domain = None, opt_empty = None\<rparr>" "''abc''" skeleton]
  by (simp add: add_defs)

text \<open>
  C8 as it is written fails: \<open>--add --group work --hour abc\<close> on the initial
  document raises nothing and returns a changed document, with the new group \<open>work\<close>
  active; and \<open>--add --group work --hour 25\<close> stores the hour \<open>25\<close>.
\<close>

theorem add_bad_hour_counterexample:
  "add \<lparr>opt_group = Some ''work'', opt_hour = Some ''abc'', opt_day = None,
        opt_domain = None, opt_empty = None\<rparr> skeleton
     = Inr \<lparr>active = [''default'', ''work''],
            groups = [''default'' \<mapsto> default_group, ''work'' \<mapsto> default_group]\<rparr>
   \<and> add \<lparr>opt_group = Some ''work'', opt_hour = Some ''abc'', opt_day = None,
        opt_domain = None, opt_empty = None\<rparr> skeleton \<noteq> Inr skeleton
   \<and> add \<lparr>opt_group = Some ''work'', opt_hour = Some ''25'', opt_day = None,
        opt_domain = None, opt_empty = None\<rparr> skeleton
     = Inr \<lparr>active = [''default'', ''work''],
            groups = [''default'' \<mapsto> default_group,
                      ''work'' \<mapsto> \<lparr>hours = [''25''], domains = [], days = [''*'']\<rparr>]\<rparr>"
  by (simp add: add_defs)


end
